theory Spec2Isabelle
  imports Main "HOL-Library.Sublist"
begin

section \<open>The GraphQL document, as App.js reads it\<close>

text \<open>
  App.js works on the syntax tree of the \<^verbatim>\<open>graphql\<close> package: a document is the list
  \<^verbatim>\<open>definitions\<close> of top-level nodes, each tagged by \<^verbatim>\<open>kind\<close>. An operation node
  carries \<^verbatim>\<open>operation\<close> (one of three strings), an optional \<^verbatim>\<open>name\<close> node and an
  optional \<^verbatim>\<open>loc\<close>; a fragment node a \<^verbatim>\<open>name\<close> and a \<^verbatim>\<open>loc\<close>. Every other kind
  of node (type system definitions) only matters through its \<^verbatim>\<open>kind\<close> and \<^verbatim>\<open>loc\<close>.
\<close>

datatype operation_type = Query | Mutation | Subscription

fun operation_type_string :: "operation_type \<Rightarrow> string" where
  "operation_type_string Query = ''query''"
| "operation_type_string Mutation = ''mutation''"
| "operation_type_string Subscription = ''subscription''"

record location =
  loc_start :: nat
  loc_end :: nat

datatype definition_node =
    OperationDefinition operation_type "string option" "location option"
  | FragmentDefinition "string option" "location option"
  | OtherDefinition string "location option"

record document_node =
  definitions :: "definition_node list"

fun def_operation :: "definition_node \<Rightarrow> operation_type option" where
  "def_operation (OperationDefinition ty nm l) = Some ty"
| "def_operation (FragmentDefinition nm l) = None"
| "def_operation (OtherDefinition k l) = None"

fun def_name :: "definition_node \<Rightarrow> string option" where
  "def_name (OperationDefinition ty nm l) = nm"
| "def_name (FragmentDefinition nm l) = nm"
| "def_name (OtherDefinition k l) = None"

fun def_loc :: "definition_node \<Rightarrow> location option" where
  "def_loc (OperationDefinition ty nm l) = l"
| "def_loc (FragmentDefinition nm l) = l"
| "def_loc (OtherDefinition k l) = l"

fun is_operation :: "definition_node \<Rightarrow> bool" where
  "is_operation (OperationDefinition ty nm l) = True"
| "is_operation (FragmentDefinition nm l) = False"
| "is_operation (OtherDefinition k l) = False"

text \<open>
  What JavaScript throws. \<^verbatim>\<open>parse\<close> throws a syntax error of the \<^verbatim>\<open>graphql\<close>
  package; reading a property of \<^verbatim>\<open>null\<close> or calling a value that is no function
  throws a \<^verbatim>\<open>TypeError\<close>.
\<close>

datatype js_exception = GraphQLSyntaxError string | TypeError

text \<open>
  \<^verbatim>\<open>parse\<close> is the parser of the \<^verbatim>\<open>graphql\<close> package (imported at line 6). It is a
  parameter of the model: it either throws or returns a document object.
\<close>

type_synonym parser = "string \<Rightarrow> js_exception + document_node"

text \<open>
  \<^verbatim>\<open>getOperationAST\<close> is the operation lookup of the \<^verbatim>\<open>graphql\<close> package (imported at
  line 6, called at line 20). App.js guards its result with \<^verbatim>\<open>operation &&\<close>: the lookup
  returns \<^verbatim>\<open>null\<close> when it finds nothing. The package's function is the loop
  \<^verbatim>\<open>
  let operation = null;
  for (const definition of documentAST.definitions) {
    if (definition.kind === Kind.OPERATION_DEFINITION) {
      if (operationName == null) {
        if (operation) { return null; }
        operation = definition;
      } else if (definition.name?.value === operationName) {
        return definition;
      }
    }
  }
  return operation;
  \<close>
  and \<open>getOperationAST_loop\<close> is that loop, with the variable \<^verbatim>\<open>operation\<close> as its
  third argument. A name that is given is a GraphQL name, hence not empty: older versions
  of the package test \<^verbatim>\<open>!operationName\<close> in place of \<^verbatim>\<open>operationName == null\<close>, and
  the two differ on the empty string only.
\<close>

fun getOperationAST_loop ::
  "definition_node list \<Rightarrow> string option \<Rightarrow> definition_node option \<Rightarrow> definition_node option"
where
  "getOperationAST_loop [] operationName operation = operation"
| "getOperationAST_loop (d # ds) operationName operation =
     (if is_operation d then
        (case operationName of
           None \<Rightarrow>
             (case operation of
                Some seen \<Rightarrow> None
              | None \<Rightarrow> getOperationAST_loop ds operationName (Some d))
         | Some wanted \<Rightarrow>
             (if def_name d = Some wanted then Some d
              else getOperationAST_loop ds operationName operation))
      else getOperationAST_loop ds operationName operation)"

definition getOperationAST :: "document_node \<Rightarrow> string option \<Rightarrow> definition_node option" where
  "getOperationAST documentAST operationName =
     getOperationAST_loop (definitions documentAST) operationName None"

section \<open>The fetcher\<close>

text \<open>The parameters GraphiQL hands to the fetcher (lines 18 and 36).\<close>

record 'v fetcher_params =
  query :: string
  operationName :: "string option"
  variables :: "'v option"

text \<open>
  \<^verbatim>\<open>isSubscription\<close> (lines 18 to 22) returns \<^verbatim>\<open>operation && operation.operation ===
  "subscription"\<close>: \<^verbatim>\<open>null\<close> (here \<open>None\<close>) when the lookup found nothing, a boolean
  otherwise. An exception of \<^verbatim>\<open>parse\<close> is not caught.
\<close>

definition isSubscription :: "parser \<Rightarrow> 'v fetcher_params \<Rightarrow> js_exception + bool option" where
  "isSubscription parse params =
     (case parse (query params) of
        Inl e \<Rightarrow> Inl e
      | Inr node \<Rightarrow>
          (case getOperationAST node (operationName params) of
             None \<Rightarrow> Inr None
           | Some operation \<Rightarrow> Inr (Some (def_operation operation = Some Subscription))))"

text \<open>Truthiness of that result in the \<^verbatim>\<open>if\<close> of line 38.\<close>

fun truthy :: "bool option \<Rightarrow> bool" where
  "truthy None = False"
| "truthy (Some b) = b"

text \<open>
  The stateless request of lines 66 to 73. The body is \<^verbatim>\<open>JSON.stringify(params)\<close>: the
  model carries the parameters themselves.
\<close>

record 'v http_request =
  url :: string
  http_method :: string
  headers :: "(string \<times> string) list"
  body :: "'v fetcher_params"

definition queryUrl :: string where
  "queryUrl = ''https://tokenql-256gb.hasura.app/v1/graphql''"

definition post_request :: "'v fetcher_params \<Rightarrow> 'v http_request" where
  "post_request params =
     \<lparr>url = queryUrl, http_method = ''POST'',
      headers = [(''Accept'', ''application/json''), (''Content-Type'', ''application/json'')],
      body = params\<rparr>"

text \<open>
  What \<^verbatim>\<open>fetcher\<close> returns: the object \<^verbatim>\<open>{ subscribe }\<close>, whose closure holds
  \<open>params\<close>, or the promise of the \<^verbatim>\<open>fetch\<close> chain. The second component lists the
  calls to \<^verbatim>\<open>fetch\<close> made before \<^verbatim>\<open>fetcher\<close> returns; the duplex channel is touched only
  by \<^verbatim>\<open>subscribe\<close>, below.
\<close>

datatype 'v fetcher_return = Subscribable "'v fetcher_params" | FetchPromise

definition fetcher ::
  "parser \<Rightarrow> 'v fetcher_params \<Rightarrow> (js_exception + 'v fetcher_return) \<times> 'v http_request list"
where
  "fetcher parse params =
     (case isSubscription parse params of
        Inl e \<Rightarrow> (Inl e, [])
      | Inr r \<Rightarrow>
          (if truthy r then (Inr (Subscribable params), [])
           else (Inr FetchPromise, [post_request params])))"

subsection \<open>The subscription path (lines 39 to 64)\<close>

text \<open>
  The arguments of \<^verbatim>\<open>subscribe\<close> are JavaScript values: callbacks (\<open>'f\<close> names the
  function), objects with fields, \<^verbatim>\<open>null\<close> or \<^verbatim>\<open>undefined\<close>. \<^verbatim>\<open>typeof null\<close> is
  \<^verbatim>\<open>"object"\<close>; an index beyond the arguments reads \<^verbatim>\<open>undefined\<close>; a missing field
  reads \<^verbatim>\<open>undefined\<close>; a field of \<^verbatim>\<open>null\<close> or \<^verbatim>\<open>undefined\<close> throws.
\<close>

datatype 'f js_value =
    Undefined
  | Null
  | Function 'f
  | Object "(string \<times> 'f js_value) list"

fun typeof :: "'f js_value \<Rightarrow> string" where
  "typeof Undefined = ''undefined''"
| "typeof Null = ''object''"
| "typeof (Function f) = ''function''"
| "typeof (Object props) = ''object''"

definition arg_at :: "'f js_value list \<Rightarrow> nat \<Rightarrow> 'f js_value" where
  "arg_at args i = (if i < length args then args ! i else Undefined)"

fun get_property :: "'f js_value \<Rightarrow> string \<Rightarrow> js_exception + 'f js_value" where
  "get_property (Object props) k =
     Inr (case map_of props k of None \<Rightarrow> Undefined | Some v \<Rightarrow> v)"
| "get_property (Function f) k = Inr Undefined"
| "get_property Null k = Inl TypeError"
| "get_property Undefined k = Inl TypeError"

definition getSinkFromArgs :: "'f js_value list \<Rightarrow> 'f js_value" where
  "getSinkFromArgs args =
     (if typeof (arg_at args 0) = ''object'' then arg_at args 0
      else Object [(''next'', arg_at args 0),
                   (''complete'', arg_at args 1),
                   (''error'', arg_at args 2)])"

text \<open>Error values: \<^verbatim>\<open>new Error(m)\<close> has the name \<^verbatim>\<open>"Error"\<close> and the message \<open>m\<close>.\<close>

record js_error =
  error_name :: string
  error_message :: string

definition new_Error :: "string \<Rightarrow> js_error" where
  "new_Error m = \<lparr>error_name = ''Error'', error_message = m\<rparr>"

text \<open>
  What the channel hands to the \<^verbatim>\<open>error\<close> callback, in the order lines 47 to 59 test
  it: an \<^verbatim>\<open>Error\<close>, a \<^verbatim>\<open>CloseEvent\<close> with \<^verbatim>\<open>code\<close> and \<^verbatim>\<open>reason\<close>, or else an
  array of objects with a \<^verbatim>\<open>message\<close>.
\<close>

record server_error =
  message :: string

datatype channel_failure =
    NativeError js_error
  | CloseEvent nat string
  | ServerErrors "server_error list"

text \<open>The decimal digits of a number, as a template literal prints \<^verbatim>\<open>err.code\<close>.\<close>

fun string_of_nat :: "nat \<Rightarrow> string" where
  "string_of_nat n =
     (if n < 10 then [char_of (48 + n)]
      else string_of_nat (n div 10) @ [char_of (48 + n mod 10)])"

declare string_of_nat.simps [simp del]

text \<open>
  The argument of \<^verbatim>\<open>new Error\<close> at lines 52 to 54. In JavaScript \<^verbatim>\<open>+\<close> binds tighter
  than \<^verbatim>\<open>? :\<close>, so the expression is
  \<^verbatim>\<open>(`Socket closed with event ${err.code}` + err.reason) ? `: ${err.reason}` : ""\<close>,
  and a string is truthy when it is not empty.
\<close>

definition close_event_message :: "nat \<Rightarrow> string \<Rightarrow> string" where
  "close_event_message code reason =
     (if (''Socket closed with event '' @ string_of_nat code) @ reason \<noteq> []
      then '': '' @ reason
      else [])"

text \<open>
  \<^verbatim>\<open>Array.prototype.join\<close>: the first element, then the separator and the next element
  for each further one; the empty string for an empty array.
\<close>

fun join_from :: "string \<Rightarrow> string list \<Rightarrow> string \<Rightarrow> string" where
  "join_from R [] sep = R"
| "join_from R (x # xs) sep = join_from (R @ sep @ x) xs sep"

definition array_join :: "string list \<Rightarrow> string \<Rightarrow> string" where
  "array_join xs sep = (case xs of [] \<Rightarrow> [] | x # rest \<Rightarrow> join_from x rest sep)"

text \<open>
  A call of an observer callback: which function, with which argument. Calling a value
  that is no function throws.
\<close>

datatype 'r call_argument = ResultArg 'r | ErrorArg js_error | NoArg

datatype ('f, 'r) sink_call = Invoked 'f "'r call_argument"

fun call_value :: "'f js_value \<Rightarrow> 'r call_argument \<Rightarrow> js_exception + ('f, 'r) sink_call" where
  "call_value (Function f) a = Inr (Invoked f a)"
| "call_value Undefined a = Inl TypeError"
| "call_value Null a = Inl TypeError"
| "call_value (Object props) a = Inl TypeError"

text \<open>\<^verbatim>\<open>sink.error(e)\<close>: read the field, then call it.\<close>

definition sink_error :: "'f js_value \<Rightarrow> js_error \<Rightarrow> js_exception + ('f, 'r) sink_call" where
  "sink_error sink e =
     (case get_property sink ''error'' of
        Inl x \<Rightarrow> Inl x
      | Inr h \<Rightarrow> call_value h (ErrorArg e))"

text \<open>The \<^verbatim>\<open>error\<close> callback of lines 46 to 60.\<close>

fun error_callback :: "'f js_value \<Rightarrow> channel_failure \<Rightarrow> js_exception + ('f, 'r) sink_call" where
  "error_callback sink (NativeError err) = sink_error sink err"
| "error_callback sink (CloseEvent code reason) =
     sink_error sink (new_Error (close_event_message code reason))"
| "error_callback sink (ServerErrors errs) =
     sink_error sink (new_Error (array_join (map message errs) '', ''))"

text \<open>
  \<^verbatim>\<open>subscribe\<close> (lines 40 to 63) registers with the client of the duplex channel: the
  payload \<open>params\<close> and a sink whose \<^verbatim>\<open>next\<close> and \<^verbatim>\<open>complete\<close> are read from the
  normalised sink at once, and whose \<^verbatim>\<open>error\<close> is the callback above, closed over the
  sink. The result is that registration, or the exception thrown before it.
\<close>

record ('f, 'v) registration =
  payload :: "'v fetcher_params"
  sink_next :: "'f js_value"
  sink_complete :: "'f js_value"
  error_sink :: "'f js_value"

definition subscribe ::
  "'v fetcher_params \<Rightarrow> 'f js_value list \<Rightarrow> js_exception + ('f, 'v) registration"
where
  "subscribe params args =
     (let sink = getSinkFromArgs args in
      case get_property sink ''next'' of
        Inl e \<Rightarrow> Inl e
      | Inr nx \<Rightarrow>
          (case get_property sink ''complete'' of
             Inl e \<Rightarrow> Inl e
           | Inr cp \<Rightarrow>
               Inr \<lparr>payload = params, sink_next = nx, sink_complete = cp, error_sink = sink\<rparr>))"

text \<open>
  The client calls the registered sink: \<^verbatim>\<open>next(result)\<close> for a message,
  \<^verbatim>\<open>complete()\<close> at the end, \<^verbatim>\<open>error(err)\<close> on a failure of the channel.
\<close>

datatype 'r channel_event = Message 'r | Completed | Failed channel_failure

fun deliver ::
  "('f, 'v) registration \<Rightarrow> 'r channel_event \<Rightarrow> js_exception + ('f, 'r) sink_call"
where
  "deliver reg (Message r) = call_value (sink_next reg) (ResultArg r)"
| "deliver reg Completed = call_value (sink_complete reg) NoArg"
| "deliver reg (Failed err) = error_callback (error_sink reg) err"

subsection \<open>The stateless path (lines 66 to 83)\<close>

text \<open>
  \<^verbatim>\<open>JSON.parse\<close> is a parameter: it returns a value or throws (\<open>None\<close>). The number
  type of the values is left open. The raw body, when it is returned, is a JavaScript
  string like any other.
\<close>

datatype 'n json =
    JNull
  | JBool bool
  | JNumber 'n
  | JString string
  | JArray "'n json list"
  | JObject "(string \<times> 'n json) list"

type_synonym 'n json_parser = "string \<Rightarrow> 'n json option"

text \<open>The last \<^verbatim>\<open>then\<close> (lines 77 to 83).\<close>

definition on_response_body :: "'n json_parser \<Rightarrow> string \<Rightarrow> 'n json" where
  "on_response_body JSON_parse responseBody =
     (case JSON_parse responseBody of
        Some v \<Rightarrow> v
      | None \<Rightarrow> JString responseBody)"

text \<open>
  The promise of \<^verbatim>\<open>fetch\<close> followed by \<^verbatim>\<open>response.text()\<close> either rejects or yields
  the body; the chain has no \<^verbatim>\<open>catch\<close>, so a rejection stays one.
\<close>

datatype fetch_outcome = NetworkFailure string | ResponseText string

datatype 'n settled = Fulfilled "'n json" | Rejected string

fun promise_chain :: "'n json_parser \<Rightarrow> fetch_outcome \<Rightarrow> 'n settled" where
  "promise_chain JSON_parse (NetworkFailure e) = Rejected e"
| "promise_chain JSON_parse (ResponseText responseBody) =
     Fulfilled (on_response_body JSON_parse responseBody)"

section \<open>The click handler (lines 126 to 167)\<close>

record position =
  pos_start :: nat
  pos_end :: nat

record mouse_pos =
  line :: nat
  ch :: nat

record token =
  token_start :: nat
  token_end :: nat

text \<open>The two methods of the editor \<^verbatim>\<open>cm\<close> that the handler calls.\<close>

record editor =
  getTokenAt :: "mouse_pos \<Rightarrow> token"
  indexFromPos :: "mouse_pos \<Rightarrow> nat"

text \<open>
  What the handler does to the console and the page, in order:
  \<^verbatim>\<open>console.error\<close>, \<^verbatim>\<open>console.log\<close>, the call \<^verbatim>\<open>document.querySelector(selector)\<close>
  and the call \<^verbatim>\<open>el.scrollIntoView()\<close>.
\<close>

datatype 'el ui_effect =
    ConsoleError string
  | ConsoleLog string
  | QuerySelector string
  | ScrollIntoView 'el

text \<open>Lines 134 to 142.\<close>

definition relevantMousePos :: "editor \<Rightarrow> mouse_pos \<Rightarrow> position" where
  "relevantMousePos cm mousePos =
     (let tok = getTokenAt cm mousePos;
          start = \<lparr>line = line mousePos, ch = token_start tok\<rparr>;
          endp = \<lparr>line = line mousePos, ch = token_end tok\<rparr>
      in \<lparr>pos_start = indexFromPos cm start, pos_end = indexFromPos cm endp\<rparr>)"

text \<open>The callback of \<^verbatim>\<open>find\<close> (lines 144 to 152): its verdict and what it logs.\<close>

definition missing_location :: string where
  "missing_location = ''Missing location information for definition''"

definition contains_position :: "position \<Rightarrow> definition_node \<Rightarrow> bool \<times> 'el ui_effect list" where
  "contains_position position d =
     (case def_loc d of
        None \<Rightarrow> (False, [ConsoleLog missing_location])
      | Some l \<Rightarrow> (loc_start l \<le> pos_start position \<and> loc_end l \<ge> pos_end position, []))"

text \<open>
  A definition's span contains a position: the definition has a location that starts at
  or before the position's start and ends at or after its end.
\<close>

abbreviation span_contains :: "position \<Rightarrow> definition_node \<Rightarrow> bool" where
  "span_contains p d \<equiv>
     (case def_loc d of
        None \<Rightarrow> False
      | Some l \<Rightarrow> loc_start l \<le> pos_start p \<and> pos_end p \<le> loc_end l)"

text \<open>
  \<^verbatim>\<open>Array.prototype.find\<close> with a callback that has effects: the callback runs on
  the elements in order until it first returns true.
\<close>

fun array_find :: "('a \<Rightarrow> bool \<times> 'e list) \<Rightarrow> 'a list \<Rightarrow> 'a option \<times> 'e list" where
  "array_find p [] = (None, [])"
| "array_find p (x # xs) =
     (case p x of
        (True, es) \<Rightarrow> (Some x, es)
      | (False, es) \<Rightarrow> (case array_find p xs of (r, es') \<Rightarrow> (r, es @ es')))"

text \<open>Lines 159 and 161.\<close>

fun inspect_operationKind :: "definition_node \<Rightarrow> string" where
  "inspect_operationKind (OperationDefinition ty nm l) = operation_type_string ty"
| "inspect_operationKind (FragmentDefinition nm l) = ''fragment''"
| "inspect_operationKind (OtherDefinition k l) = ''unknown''"

fun inspect_operationName :: "definition_node \<Rightarrow> string" where
  "inspect_operationName (OperationDefinition ty nm l) =
     (case nm of Some v \<Rightarrow> v | None \<Rightarrow> ''unknown'')"
| "inspect_operationName (FragmentDefinition nm l) =
     (case nm of Some v \<Rightarrow> v | None \<Rightarrow> ''unknown'')"
| "inspect_operationName (OtherDefinition k l) = ''unknown''"

text \<open>Line 163.\<close>

definition selector :: "string \<Rightarrow> string \<Rightarrow> string" where
  "selector kind nm = ''.graphiql-explorer-root #'' @ kind @ ''-'' @ nm"

text \<open>Any object is truthy (line 129).\<close>

definition object_truthy :: "document_node \<Rightarrow> bool" where
  "object_truthy obj = True"

definition could_not_parse :: string where
  "could_not_parse = ''Couldn't parse query document''"

definition unable_to_find :: string where
  "unable_to_find = ''Unable to find definition corresponding to mouse position''"

datatype handler_return = ReturnNull | ReturnUndefined

text \<open>
  \<^verbatim>\<open>_handleInspectOperation\<close>. \<open>state_query\<close> is \<^verbatim>\<open>this.state.query\<close>,
  \<open>querySelector\<close> is \<^verbatim>\<open>document.querySelector\<close>. The result is what the handler
  returns or throws, and what it logs and scrolls, in order.
\<close>

definition handleInspectOperation ::
  "parser \<Rightarrow> (string \<Rightarrow> 'el option) \<Rightarrow> string \<Rightarrow> editor \<Rightarrow> mouse_pos
   \<Rightarrow> (js_exception + handler_return) \<times> 'el ui_effect list"
where
  "handleInspectOperation parse querySelector state_query cm mousePos =
     (case parse (if state_query \<noteq> [] then state_query else []) of
        Inl e \<Rightarrow> (Inl e, [])
      | Inr parsedQuery \<Rightarrow>
          (if \<not> object_truthy parsedQuery
           then (Inr ReturnNull, [ConsoleError could_not_parse])
           else
             (let position = relevantMousePos cm mousePos in
              case array_find (contains_position position) (definitions parsedQuery) of
                (None, logs) \<Rightarrow> (Inr ReturnNull, logs @ [ConsoleError unable_to_find])
              | (Some d, logs) \<Rightarrow>
                  (let sel = selector (inspect_operationKind d) (inspect_operationName d) in
                   (Inr ReturnUndefined,
                    logs @ [QuerySelector sel] @
                    (case querySelector sel of
                       None \<Rightarrow> []
                     | Some el \<Rightarrow> [ScrollIntoView el]))))))"

section \<open>The inputs of the examples\<close>

text \<open>
  A document of two named queries, \<^verbatim>\<open>query First { aaaa } query Next { bbbb }\<close>. The
  locations are character offsets into that text, the end exclusive: the first operation
  spans 0 to 20, the second 21 to 40.
\<close>

definition two_queries_text :: string where
  "two_queries_text = ''query First { aaaa } query Next { bbbb }''"

definition first_query :: definition_node where
  "first_query =
     OperationDefinition Query (Some ''First'') (Some \<lparr>loc_start = 0, loc_end = 20\<rparr>)"

definition next_query :: definition_node where
  "next_query =
     OperationDefinition Query (Some ''Next'') (Some \<lparr>loc_start = 21, loc_end = 40\<rparr>)"

definition two_queries :: document_node where
  "two_queries = \<lparr>definitions = [first_query, next_query]\<rparr>"

text \<open>A document of one named subscription, \<^verbatim>\<open>subscription Feed { tick }\<close>.\<close>

definition feed_text :: string where
  "feed_text = ''subscription Feed { tick }''"

definition feed_subscription :: definition_node where
  "feed_subscription =
     OperationDefinition Subscription (Some ''Feed'') (Some \<lparr>loc_start = 0, loc_end = 26\<rparr>)"

definition feed_document :: document_node where
  "feed_document = \<lparr>definitions = [feed_subscription]\<rparr>"

text \<open>
  The parser at the texts of the examples: the two documents above, and the syntax error
  on the unfinished \<^verbatim>\<open>query First {\<close> and on the empty text. The table holds nothing
  else: on any other text it answers with the syntax error too, and no example reads
  it there.
\<close>

definition example_parse :: parser where
  "example_parse text =
     (if text = two_queries_text then Inr two_queries
      else if text = feed_text then Inr feed_document
      else Inl (GraphQLSyntaxError ''Syntax Error''))"

text \<open>
  \<^verbatim>\<open>JSON.parse\<close> at the two bodies of the examples: the first is an object, the
  second (like every other text, which no example reads) makes it throw.
\<close>

definition example_JSON_parse :: "nat json_parser" where
  \<open>example_JSON_parse responseBody =
     (if responseBody = ''{"data":{"x":1}}''
      then Some (JObject [(''data'', JObject [(''x'', JNumber 1)])])
      else None)\<close>

text \<open>
  An editor of one line whose token at a column is the five characters from there, so
  that a click at column 25 gives the position from 25 to 30.
\<close>

definition example_editor :: editor where
  "example_editor =
     \<lparr>getTokenAt = (\<lambda>p. \<lparr>token_start = ch p, token_end = ch p + 5\<rparr>),
      indexFromPos = (\<lambda>p. ch p)\<rparr>"

text \<open>A page with one element, for the second query.\<close>

definition example_querySelector :: "string \<Rightarrow> string option" where
  "example_querySelector sel =
     (if sel = ''.graphiql-explorer-root #query-Next'' then Some ''query-Next'' else None)"

section \<open>Properties of the operation lookup\<close>

text \<open>
  Without a name the loop returns the only operation of the list, and nothing when there
  are none or several; \<open>acc\<close> is the operation already seen.
\<close>

lemma loop_none_filter:
  "getOperationAST_loop ds None acc =
     (case acc of
        None \<Rightarrow> (case filter is_operation ds of [] \<Rightarrow> None | [d] \<Rightarrow> Some d | _ \<Rightarrow> None)
      | Some a \<Rightarrow> (case filter is_operation ds of [] \<Rightarrow> Some a | _ \<Rightarrow> None))"
  by (induction ds arbitrary: acc) (auto split: option.splits list.splits)

text \<open>With a name it returns the first operation of that name, else what it had.\<close>

lemma loop_named_find:
  "getOperationAST_loop ds (Some n) acc =
     (case find (\<lambda>d. is_operation d \<and> def_name d = Some n) ds of
        Some d \<Rightarrow> Some d
      | None \<Rightarrow> acc)"
  by (induction ds arbitrary: acc) (auto split: option.splits)

lemma lookup_ambiguous:
  assumes "2 \<le> length (filter is_operation (definitions doc))"
  shows "getOperationAST doc None = None"
  using assms unfolding getOperationAST_def loop_none_filter
  by (auto split: list.splits)

lemma find_single_operation:
  "filter is_operation ds = [d] \<Longrightarrow> def_name d = Some n \<Longrightarrow>
   find (\<lambda>x. is_operation x \<and> def_name x = Some n) ds = Some d"
proof (induction ds)
  case Nil
  then show ?case by simp
next
  case (Cons x xs)
  show ?case
  proof (cases "is_operation x")
    case True
    with Cons.prems have "x = d" by simp
    with True Cons.prems show ?thesis by simp
  next
    case False
    with Cons show ?thesis by simp
  qed
qed

lemma lookup_single:
  assumes "filter is_operation (definitions doc) = [d]"
  shows "getOperationAST doc None = Some d"
    and "def_name d = Some n \<Longrightarrow> getOperationAST doc (Some n) = Some d"
  using assms unfolding getOperationAST_def loop_none_filter loop_named_find
  by (simp_all add: find_single_operation)

section \<open>The fetcher: which transport, which failure\<close>

text \<open>
  C8. When \<^verbatim>\<open>parse\<close> throws on the text of the request, \<^verbatim>\<open>fetcher\<close> throws that
  same error to its caller: it returns no \<^verbatim>\<open>{ subscribe }\<close> object, so nothing can
  be registered on the duplex channel, and it has made no call to \<^verbatim>\<open>fetch\<close>.
\<close>

theorem parse_failure_no_transport:
  "parse (query params) = Inl e \<Longrightarrow> fetcher parse params = (Inl e, [])"
  by (simp add: fetcher_def isSubscription_def)

text \<open>The unfinished text \<^verbatim>\<open>query First {\<close> is such a request.\<close>

theorem parse_failure_no_transport_witness:
  "example_parse ''query First {'' = Inl (GraphQLSyntaxError ''Syntax Error'') \<and>
   fetcher example_parse
     \<lparr>query = ''query First {'', operationName = None, variables = (None :: unit option)\<rparr>
   = (Inl (GraphQLSyntaxError ''Syntax Error''), [])"
  using parse_failure_no_transport
    [of example_parse
        "\<lparr>query = ''query First {'', operationName = None, variables = (None :: unit option)\<rparr>"
        "GraphQLSyntaxError ''Syntax Error''"]
  by (simp add: example_parse_def two_queries_text_def feed_text_def)

text \<open>
  C1, as the code has it. When the text parses to a document of two or more operations
  and no operation name is given, the lookup finds no operation, \<^verbatim>\<open>isSubscription\<close>
  is \<^verbatim>\<open>null\<close>, and \<^verbatim>\<open>fetcher\<close> takes the stateless branch: it throws nothing and
  posts the request once. The code has no error for an ambiguous operation.
\<close>

theorem ambiguous_operation_goes_stateless:
  assumes "parse (query params) = Inr doc"
    and "2 \<le> length (filter is_operation (definitions doc))"
    and "operationName params = None"
  shows "fetcher parse params = (Inr FetchPromise, [post_request params])"
  using assms lookup_ambiguous [OF assms(2)]
  by (simp add: fetcher_def isSubscription_def)

theorem ambiguous_operation_goes_stateless_witness:
  "example_parse two_queries_text = Inr two_queries \<and>
   2 \<le> length (filter is_operation (definitions two_queries)) \<and>
   fetcher example_parse
     \<lparr>query = two_queries_text, operationName = None, variables = (None :: unit option)\<rparr>
   = (Inr FetchPromise,
      [post_request \<lparr>query = two_queries_text, operationName = None, variables = None\<rparr>])"
  using ambiguous_operation_goes_stateless
    [of example_parse
        "\<lparr>query = two_queries_text, operationName = None, variables = (None :: unit option)\<rparr>"
        two_queries]
  by (simp add: example_parse_def two_queries_def first_query_def next_query_def)

text \<open>
  The document of two queries, sent without an operation name, is not refused: the
  fetcher returns the promise and has posted the request.
\<close>

theorem ambiguous_operation_counterexample:
  "example_parse two_queries_text = Inr two_queries \<and>
   length (filter is_operation (definitions two_queries)) = 2 \<and>
   fetcher example_parse
     \<lparr>query = two_queries_text, operationName = None, variables = (None :: unit option)\<rparr>
   = (Inr FetchPromise,
      [post_request \<lparr>query = two_queries_text, operationName = None, variables = None\<rparr>])"
  by (simp add: example_parse_def two_queries_def first_query_def next_query_def
      fetcher_def isSubscription_def getOperationAST_def)

text \<open>The payload of a registration plays no part in the delivery of an event.\<close>

lemma deliver_payload_irrelevant:
  "deliver (reg\<lparr>payload := p\<rparr>) ev = deliver reg ev"
  by (cases ev) simp_all

lemma subscribe_payload:
  "subscribe p args = map_sum id (\<lambda>reg. reg\<lparr>payload := p\<rparr>) (subscribe q args)"
  by (simp add: subscribe_def Let_def split: sum.splits)

text \<open>
  C5. When the document has exactly one operation and that operation is named, the lookup
  finds it both without a name and under its own name. So \<^verbatim>\<open>isSubscription\<close> gives
  the same answer for the two requests, \<^verbatim>\<open>fetcher\<close> takes the same branch for both
  (the \<^verbatim>\<open>{ subscribe }\<close> object for a subscription, one post otherwise; the promise
  chain does not read the parameters), and a subscription delivers every event of the
  channel to the same callback with the same argument. The two requests differ only in
  the \<^verbatim>\<open>operationName\<close> they carry to the transport.
\<close>

theorem single_operation_name_optional:
  fixes params :: "'v fetcher_params"
  assumes "parse (query params) = Inr doc"
    and "filter is_operation (definitions doc) = [d]"
    and "def_name d = Some n"
  shows "isSubscription parse (params\<lparr>operationName := None\<rparr>) =
           Inr (Some (def_operation d = Some Subscription)) \<and>
         isSubscription parse (params\<lparr>operationName := Some n\<rparr>) =
           Inr (Some (def_operation d = Some Subscription)) \<and>
         fetcher parse (params\<lparr>operationName := None\<rparr>) =
           (if def_operation d = Some Subscription
            then (Inr (Subscribable (params\<lparr>operationName := None\<rparr>)), [])
            else (Inr FetchPromise, [post_request (params\<lparr>operationName := None\<rparr>)])) \<and>
         fetcher parse (params\<lparr>operationName := Some n\<rparr>) =
           (if def_operation d = Some Subscription
            then (Inr (Subscribable (params\<lparr>operationName := Some n\<rparr>)), [])
            else (Inr FetchPromise, [post_request (params\<lparr>operationName := Some n\<rparr>)])) \<and>
         (\<forall>(args :: 'f js_value list) (ev :: 'r channel_event).
            map_sum id (\<lambda>reg. deliver reg ev) (subscribe (params\<lparr>operationName := None\<rparr>) args) =
            map_sum id (\<lambda>reg. deliver reg ev) (subscribe (params\<lparr>operationName := Some n\<rparr>) args))"
proof -
  have "map_sum id (\<lambda>reg. deliver reg ev) (subscribe (params\<lparr>operationName := None\<rparr>) args) =
      map_sum id (\<lambda>reg. deliver reg ev) (subscribe (params\<lparr>operationName := Some n\<rparr>) args)"
    for args :: "'f js_value list" and ev :: "'r channel_event"
    by (simp add: subscribe_payload [of "params\<lparr>operationName := None\<rparr>" args
          "params\<lparr>operationName := Some n\<rparr>"]
        sum.map_comp comp_def id_def deliver_payload_irrelevant)
  then show ?thesis
    using assms(1) lookup_single(1) [OF assms(2)] lookup_single(2) [OF assms(2) assms(3)]
    by (simp add: fetcher_def isSubscription_def)
qed

theorem single_operation_name_optional_witness:
  "example_parse feed_text = Inr feed_document \<and>
   filter is_operation (definitions feed_document) = [feed_subscription] \<and>
   def_name feed_subscription = Some ''Feed'' \<and>
   fetcher example_parse
     \<lparr>query = feed_text, operationName = None, variables = (None :: unit option)\<rparr> =
   (Inr (Subscribable \<lparr>query = feed_text, operationName = None, variables = None\<rparr>), []) \<and>
   fetcher example_parse
     \<lparr>query = feed_text, operationName = Some ''Feed'', variables = (None :: unit option)\<rparr> =
   (Inr (Subscribable \<lparr>query = feed_text, operationName = Some ''Feed'', variables = None\<rparr>), [])"
  using single_operation_name_optional
    [of example_parse
        "\<lparr>query = feed_text, operationName = None, variables = (None :: unit option)\<rparr>"
        feed_document feed_subscription "''Feed''",
     where ?'f = nat and ?'r = string]
  by (simp add: example_parse_def feed_document_def feed_subscription_def
      feed_text_def two_queries_text_def)

text \<open>
  C3. A request whose operation is a query or a mutation is posted once, and
  \<^verbatim>\<open>fetcher\<close> returns the promise of the chain. Once the body has arrived as text, the
  promise fulfils: with the value of \<^verbatim>\<open>JSON.parse\<close> when the body parses, and with
  the body itself, as a string, when \<^verbatim>\<open>JSON.parse\<close> throws.
\<close>

theorem stateless_body_parsed_or_raw:
  assumes "parse (query params) = Inr doc"
    and "getOperationAST doc (operationName params) = Some d"
    and "def_operation d = Some Query \<or> def_operation d = Some Mutation"
  shows "fetcher parse params = (Inr FetchPromise, [post_request params]) \<and>
         promise_chain JSON_parse (ResponseText responseBody) =
           Fulfilled (case JSON_parse responseBody of
                        Some v \<Rightarrow> v
                      | None \<Rightarrow> JString responseBody)"
  using assms by (auto simp: fetcher_def isSubscription_def on_response_body_def)

text \<open>
  The second of the two queries, asked for by name, with the body
  \<^verbatim>\<open>{"data":{"x":1}}\<close> and with the body \<^verbatim>\<open>not json\<close>.
\<close>

theorem stateless_body_parsed_or_raw_witness:
  \<open>example_parse two_queries_text = Inr two_queries \<and>
   getOperationAST two_queries (Some ''Next'') = Some next_query \<and>
   def_operation next_query = Some Query \<and>
   fetcher example_parse
     \<lparr>query = two_queries_text, operationName = Some ''Next'', variables = (None :: unit option)\<rparr> =
   (Inr FetchPromise,
    [post_request \<lparr>query = two_queries_text, operationName = Some ''Next'', variables = None\<rparr>]) \<and>
   promise_chain example_JSON_parse (ResponseText ''{"data":{"x":1}}'') =
     Fulfilled (JObject [(''data'', JObject [(''x'', JNumber 1)])]) \<and>
   promise_chain example_JSON_parse (ResponseText ''not json'') =
     Fulfilled (JString ''not json'')\<close>
proof -
  let ?p = "\<lparr>query = two_queries_text, operationName = Some ''Next'',
             variables = (None :: unit option)\<rparr>"
  have h1: "example_parse (query ?p) = Inr two_queries"
    by (simp add: example_parse_def)
  have h2: "getOperationAST two_queries (operationName ?p) = Some next_query"
    by (simp add: getOperationAST_def two_queries_def first_query_def next_query_def)
  have h3: "def_operation next_query = Some Query \<or> def_operation next_query = Some Mutation"
    by (simp add: next_query_def)
  note t = stateless_body_parsed_or_raw
    [of example_parse ?p two_queries next_query example_JSON_parse]
  from t [of \<open>''{"data":{"x":1}}''\<close>] t [of "''not json''"] h1 h2 h3
  show ?thesis
    by (simp add: example_JSON_parse_def next_query_def)
qed

section \<open>The subscription: the observer and the failures of the channel\<close>

lemma subscribe_Inr:
  assumes "subscribe params args = Inr reg"
  shows "error_sink reg = getSinkFromArgs args"
    and "get_property (getSinkFromArgs args) ''next'' = Inr (sink_next reg)"
    and "get_property (getSinkFromArgs args) ''complete'' = Inr (sink_complete reg)"
    and "payload reg = params"
  using assms by (auto simp: subscribe_def Let_def split: sum.splits)

lemma sink_of_positional:
  "getSinkFromArgs [Function n, Function c, Function e] =
     Object [(''next'', Function n), (''complete'', Function c), (''error'', Function e)]"
  by (simp add: getSinkFromArgs_def arg_at_def)

lemma sink_of_object: "getSinkFromArgs [Object props] = Object props"
  by (simp add: getSinkFromArgs_def arg_at_def)

lemma deliver_by_fields:
  assumes "sink_next r1 = sink_next r2"
    and "sink_complete r1 = sink_complete r2"
    and "get_property (error_sink r1) ''error'' = get_property (error_sink r2) ''error''"
  shows "deliver r1 ev = deliver r2 ev"
proof (cases ev)
  case (Failed err)
  with assms(3) show ?thesis by (cases err) (simp_all add: sink_error_def)
qed (simp_all add: assms)

lemma join_from_concat:
  "join_from R xs sep = R @ concat (map (\<lambda>x. sep @ x) xs)"
  by (induction xs arbitrary: R) simp_all

lemma array_join_concat:
  "array_join xs sep =
     (case xs of [] \<Rightarrow> [] | x # rest \<Rightarrow> x @ concat (map (\<lambda>y. sep @ y) rest))"
  by (simp add: array_join_def join_from_concat split: list.splits)

text \<open>
  The condition of line 52 is a string that starts with \<^verbatim>\<open>Socket closed with event\<close>,
  so it is never empty and the first branch is always taken.
\<close>

lemma close_event_message_eq: "close_event_message code reason = '': '' @ reason"
  by (simp add: close_event_message_def)

text \<open>
  C6. \<^verbatim>\<open>subscribe\<close> called with three callbacks in the order next, complete, error,
  and \<^verbatim>\<open>subscribe\<close> called with one object whose fields \<^verbatim>\<open>next\<close>, \<^verbatim>\<open>complete\<close>
  and \<^verbatim>\<open>error\<close> are those callbacks, read the same three fields from the sink that
  \<^verbatim>\<open>getSinkFromArgs\<close> returns, register the same \<^verbatim>\<open>next\<close> and \<^verbatim>\<open>complete\<close>, and
  answer every event of the channel with the same call.
\<close>

theorem observer_forms_normalised:
  fixes n c e :: 'f and params :: "'v fetcher_params"
  assumes "map_of props ''next'' = Some (Function n)"
    and "map_of props ''complete'' = Some (Function c)"
    and "map_of props ''error'' = Some (Function e)"
  shows "get_property (getSinkFromArgs [Function n, Function c, Function e]) ''next'' =
           get_property (getSinkFromArgs [Object props]) ''next'' \<and>
         get_property (getSinkFromArgs [Function n, Function c, Function e]) ''complete'' =
           get_property (getSinkFromArgs [Object props]) ''complete'' \<and>
         get_property (getSinkFromArgs [Function n, Function c, Function e]) ''error'' =
           get_property (getSinkFromArgs [Object props]) ''error'' \<and>
         subscribe params [Function n, Function c, Function e] =
           Inr \<lparr>payload = params, sink_next = Function n, sink_complete = Function c,
                error_sink = Object [(''next'', Function n), (''complete'', Function c),
                                     (''error'', Function e)]\<rparr> \<and>
         subscribe params [Object props] =
           Inr \<lparr>payload = params, sink_next = Function n, sink_complete = Function c,
                error_sink = Object props\<rparr> \<and>
         (\<forall>ev :: 'r channel_event.
            map_sum id (\<lambda>reg. deliver reg ev) (subscribe params [Function n, Function c, Function e]) =
            map_sum id (\<lambda>reg. deliver reg ev) (subscribe params [Object props]))"
proof -
  have fields: "get_property (Object props) ''next'' = Inr (Function n)"
    "get_property (Object props) ''complete'' = Inr (Function c)"
    "get_property (Object props) ''error'' = Inr (Function e)"
    using assms by simp_all
  have pos: "subscribe params [Function n, Function c, Function e] =
      Inr \<lparr>payload = params, sink_next = Function n, sink_complete = Function c,
           error_sink = Object [(''next'', Function n), (''complete'', Function c),
                                (''error'', Function e)]\<rparr>"
    by (simp add: subscribe_def sink_of_positional)
  have obj: "subscribe params [Object props] =
      Inr \<lparr>payload = params, sink_next = Function n, sink_complete = Function c,
           error_sink = Object props\<rparr>"
    using fields by (simp add: subscribe_def sink_of_object)
  have same: "deliver \<lparr>payload = params, sink_next = Function n, sink_complete = Function c,
           error_sink = Object [(''next'', Function n), (''complete'', Function c),
                                (''error'', Function e)]\<rparr> ev =
        deliver \<lparr>payload = params, sink_next = Function n, sink_complete = Function c,
           error_sink = Object props\<rparr> ev" for ev :: "'r channel_event"
    using fields(3) by (intro deliver_by_fields) simp_all
  show ?thesis
    unfolding pos obj sink_of_positional sink_of_object
    using fields same by simp
qed

text \<open>An object that lists its fields in another order, and the message \<^verbatim>\<open>tick\<close>.\<close>

theorem observer_forms_normalised_witness:
  "map_of [(''error'', Function (3::nat)), (''next'', Function 1), (''complete'', Function 2)] ''next''
     = Some (Function 1) \<and>
   subscribe \<lparr>query = feed_text, operationName = None, variables = (None :: unit option)\<rparr>
     [Object [(''error'', Function (3::nat)), (''next'', Function 1), (''complete'', Function 2)]] =
   Inr \<lparr>payload = \<lparr>query = feed_text, operationName = None, variables = None\<rparr>,
        sink_next = Function 1, sink_complete = Function 2,
        error_sink = Object [(''error'', Function 3), (''next'', Function 1),
                             (''complete'', Function 2)]\<rparr> \<and>
   map_sum id (\<lambda>reg. deliver reg (Message ''tick''))
     (subscribe \<lparr>query = feed_text, operationName = None, variables = (None :: unit option)\<rparr>
        [Function (1::nat), Function 2, Function 3]) =
   map_sum id (\<lambda>reg. deliver reg (Message ''tick''))
     (subscribe \<lparr>query = feed_text, operationName = None, variables = (None :: unit option)\<rparr>
        [Object [(''error'', Function (3::nat)), (''next'', Function 1), (''complete'', Function 2)]]) \<and>
   map_sum id (\<lambda>reg. deliver reg (Message ''tick''))
     (subscribe \<lparr>query = feed_text, operationName = None, variables = (None :: unit option)\<rparr>
        [Function (1::nat), Function 2, Function 3]) =
   Inr (Inr (Invoked 1 (ResultArg ''tick'')))"
  using observer_forms_normalised
    [of "[(''error'', Function (3::nat)), (''next'', Function 1), (''complete'', Function 2)]"
        1 2 3
        "\<lparr>query = feed_text, operationName = None, variables = (None :: unit option)\<rparr>",
     where ?'r = string]
  by simp

text \<open>
  C7. On a failure of the channel, an \<^verbatim>\<open>Error\<close> reaches the observer's \<^verbatim>\<open>error\<close>
  callback as it is, and an array of server errors reaches it as one new \<^verbatim>\<open>Error\<close>
  whose message is their messages in the order of the array, each but the first preceded
  by a comma and a space.
\<close>

theorem channel_failure_forwarding:
  assumes "subscribe params args = Inr reg"
    and "get_property (getSinkFromArgs args) ''error'' = Inr (Function f)"
  shows "deliver reg (Failed (NativeError err)) = Inr (Invoked f (ErrorArg err)) \<and>
         deliver reg (Failed (ServerErrors errs)) =
           Inr (Invoked f (ErrorArg (new_Error
             (case errs of
                [] \<Rightarrow> []
              | e # es \<Rightarrow> message e @ concat (map (\<lambda>x. '', '' @ message x) es)))))"
  using assms(2) subscribe_Inr(1) [OF assms(1)]
  by (simp add: sink_error_def array_join_concat comp_def split: list.splits)

theorem channel_failure_forwarding_witness:
  "subscribe \<lparr>query = feed_text, operationName = None, variables = (None :: unit option)\<rparr>
     [Function (1::nat), Function 2, Function 3] =
   Inr \<lparr>payload = \<lparr>query = feed_text, operationName = None, variables = None\<rparr>,
        sink_next = Function 1, sink_complete = Function 2,
        error_sink = Object [(''next'', Function 1), (''complete'', Function 2),
                             (''error'', Function 3)]\<rparr> \<and>
   deliver \<lparr>payload = \<lparr>query = feed_text, operationName = None, variables = (None :: unit option)\<rparr>,
        sink_next = Function (1::nat), sink_complete = Function 2,
        error_sink = Object [(''next'', Function 1), (''complete'', Function 2),
                             (''error'', Function 3)]\<rparr>
     (Failed (NativeError \<lparr>error_name = ''RangeError'', error_message = ''too far''\<rparr>)) =
   (Inr (Invoked 3 (ErrorArg \<lparr>error_name = ''RangeError'', error_message = ''too far''\<rparr>))
      :: js_exception + (nat, unit) sink_call) \<and>
   deliver \<lparr>payload = \<lparr>query = feed_text, operationName = None, variables = (None :: unit option)\<rparr>,
        sink_next = Function (1::nat), sink_complete = Function 2,
        error_sink = Object [(''next'', Function 1), (''complete'', Function 2),
                             (''error'', Function 3)]\<rparr>
     (Failed (ServerErrors [\<lparr>message = ''no field''\<rparr>, \<lparr>message = ''denied''\<rparr>,
                            \<lparr>message = ''late''\<rparr>])) =
   (Inr (Invoked 3 (ErrorArg (new_Error ''no field, denied, late'')))
      :: js_exception + (nat, unit) sink_call)"
proof -
  let ?p = "\<lparr>query = feed_text, operationName = None, variables = (None :: unit option)\<rparr>"
  let ?args = "[Function (1::nat), Function 2, Function 3]"
  let ?reg = "\<lparr>payload = ?p, sink_next = Function (1::nat), sink_complete = Function 2,
        error_sink = Object [(''next'', Function 1), (''complete'', Function 2),
                             (''error'', Function 3)]\<rparr>"
  have h1: "subscribe ?p ?args = Inr ?reg"
    by (simp add: subscribe_def getSinkFromArgs_def arg_at_def)
  have h2: "get_property (getSinkFromArgs ?args) ''error'' = Inr (Function 3)"
    by (simp add: getSinkFromArgs_def arg_at_def)
  from channel_failure_forwarding [OF h1 h2,
      of "\<lparr>error_name = ''RangeError'', error_message = ''too far''\<rparr>"
         "[\<lparr>message = ''no field''\<rparr>, \<lparr>message = ''denied''\<rparr>, \<lparr>message = ''late''\<rparr>]"] h1
  show ?thesis by simp
qed

text \<open>
  C2. For the closure of code 1006 and reason \<^verbatim>\<open>abnormal\<close>, the message of the error
  that reaches the observer is \<^verbatim>\<open>: abnormal\<close>: the code 1006 does not occur in it. For
  the same code and the empty reason the message is a colon and a space.
\<close>

theorem close_event_message_loses_code:
  "close_event_message 1006 ''abnormal'' = '': abnormal'' \<and>
   \<not> sublist ''1006'' (close_event_message 1006 ''abnormal'') \<and>
   close_event_message 1006 [] = '': '' \<and>
   deliver \<lparr>payload = \<lparr>query = feed_text, operationName = None, variables = (None :: unit option)\<rparr>,
        sink_next = Function (1::nat), sink_complete = Function 2,
        error_sink = Object [(''next'', Function 1), (''complete'', Function 2),
                             (''error'', Function 3)]\<rparr>
     (Failed (CloseEvent 1006 ''abnormal'')) =
   (Inr (Invoked 3 (ErrorArg (new_Error '': abnormal'')))
      :: js_exception + (nat, unit) sink_call)"
  by (simp add: close_event_message_eq sink_error_def sublist_Cons_right prefix_Cons)

section \<open>The click handler: which definition, which identifier\<close>

text \<open>
  \<^verbatim>\<open>find\<close> with the callback of lines 144 to 152 returns the first definition whose
  span contains the position, and has logged one line for each definition without a
  location that it passed on the way.
\<close>

lemma contains_position_fst: "fst (contains_position p d) = span_contains p d"
  by (simp add: contains_position_def split: option.splits)

lemma contains_position_snd:
  "snd (contains_position p d) =
     (if def_loc d = None then [ConsoleLog missing_location] else [])"
  by (simp add: contains_position_def split: option.splits)

lemma array_find_fst:
  "fst (array_find f xs) = find (\<lambda>x. fst (f x)) xs"
  by (induction xs) (auto split: prod.splits bool.splits)

lemma array_find_snd:
  "snd (array_find f xs) =
     concat (map (\<lambda>x. snd (f x)) (takeWhile (\<lambda>x. \<not> fst (f x)) xs)) @
     (case find (\<lambda>x. fst (f x)) xs of None \<Rightarrow> [] | Some x \<Rightarrow> snd (f x))"
  by (induction xs) (auto split: prod.splits bool.splits)

lemma concat_missing:
  "concat (map (\<lambda>d. snd (contains_position p d)) ds) =
     replicate (length (filter (\<lambda>d. def_loc d = None) ds)) (ConsoleLog missing_location)"
  by (induction ds) (simp_all add: contains_position_snd)

lemma find_definition:
  "array_find (contains_position p) ds =
     (find (span_contains p) ds,
      replicate (length (filter (\<lambda>d. def_loc d = None) (takeWhile (\<lambda>d. \<not> span_contains p d) ds)))
        (ConsoleLog missing_location))"
proof -
  have "snd (array_find (contains_position p) ds) =
      replicate (length (filter (\<lambda>d. def_loc d = None) (takeWhile (\<lambda>d. \<not> span_contains p d) ds)))
        (ConsoleLog missing_location)"
  proof -
    have "(case find (span_contains p) ds of None \<Rightarrow> [] | Some x \<Rightarrow> snd (contains_position p x)) = []"
      by (auto simp: contains_position_snd split: option.splits dest!: find_Some_iff [THEN iffD1])
    then show ?thesis
      by (simp add: array_find_snd contains_position_fst concat_missing)
  qed
  moreover have "fst (array_find (contains_position p) ds) = find (span_contains p) ds"
    by (simp add: array_find_fst contains_position_fst)
  ultimately show ?thesis by (simp add: prod_eq_iff)
qed

lemma state_query_or_empty: "(if q \<noteq> [] then q else []) = (q :: string)"
  by simp

lemma array_find_logs:
  assumes "array_find (contains_position p) ds = (r, logs)"
  shows "set logs \<subseteq> {ConsoleLog missing_location}"
  using assms unfolding find_definition by auto

lemma handleInspectOperation_parsed:
  assumes "parse state_query = Inr doc"
  shows "handleInspectOperation parse querySelector state_query cm mousePos =
     (case array_find (contains_position (relevantMousePos cm mousePos)) (definitions doc) of
        (None, logs) \<Rightarrow> (Inr ReturnNull, logs @ [ConsoleError unable_to_find])
      | (Some d, logs) \<Rightarrow>
          (Inr ReturnUndefined,
           logs @ [QuerySelector (selector (inspect_operationKind d) (inspect_operationName d))] @
           (case querySelector (selector (inspect_operationKind d) (inspect_operationName d)) of
              None \<Rightarrow> []
            | Some el \<Rightarrow> [ScrollIntoView el])))"
  using assms
  by (simp add: handleInspectOperation_def state_query_or_empty object_truthy_def Let_def
      split: prod.splits option.splits)

lemma handleInspectOperation_throws:
  assumes "parse state_query = Inl e"
  shows "handleInspectOperation parse querySelector state_query cm mousePos = (Inl e, [])"
  using assms by (simp add: handleInspectOperation_def state_query_or_empty)

text \<open>
  C4. When the text of the editor parses, the handler finds the first of the document's
  definitions, in their order, whose span contains the position; a definition without a
  location is never the one found, and costs one line on the console. When no span
  contains the position, the handler logs that it found nothing and returns
  \<^verbatim>\<open>null\<close>. Otherwise it looks up the element of the definition found.
\<close>

theorem resolver_selects_first_containing:
  assumes "parse state_query = Inr doc"
  shows "handleInspectOperation parse querySelector state_query cm mousePos =
     (let position = relevantMousePos cm mousePos;
          defs = definitions doc;
          missing = (\<lambda>ds. replicate (length (filter (\<lambda>d. def_loc d = None) ds))
                              (ConsoleLog missing_location))
      in case find (span_contains position) defs of
           None \<Rightarrow> (Inr ReturnNull, missing defs @ [ConsoleError unable_to_find])
         | Some d \<Rightarrow>
             (Inr ReturnUndefined,
              missing (takeWhile (\<lambda>x. \<not> span_contains position x) defs) @
              [QuerySelector (selector (inspect_operationKind d) (inspect_operationName d))] @
              (case querySelector (selector (inspect_operationKind d) (inspect_operationName d)) of
                 None \<Rightarrow> []
               | Some el \<Rightarrow> [ScrollIntoView el])))"
proof (cases "find (span_contains (relevantMousePos cm mousePos)) (definitions doc)")
  case None
  then have all: "takeWhile (\<lambda>x. \<not> span_contains (relevantMousePos cm mousePos) x)
      (definitions doc) = definitions doc"
    unfolding takeWhile_eq_all_conv find_None_iff by blast
  show ?thesis
    unfolding handleInspectOperation_parsed [of parse state_query doc, OF assms]
      find_definition Let_def None all
    by simp
next
  case (Some d)
  show ?thesis
    unfolding handleInspectOperation_parsed [of parse state_query doc, OF assms]
      find_definition Let_def Some
    by simp
qed

text \<open>
  The two queries at 0 to 20 and 21 to 40: the position 25 to 30 finds the second, the
  position 50 to 55 finds nothing.
\<close>

theorem resolver_selects_first_containing_witness:
  "example_parse two_queries_text = Inr two_queries \<and>
   relevantMousePos example_editor \<lparr>line = 0, ch = 25\<rparr> = \<lparr>pos_start = 25, pos_end = 30\<rparr> \<and>
   handleInspectOperation example_parse example_querySelector two_queries_text
       example_editor \<lparr>line = 0, ch = 25\<rparr> =
     (Inr ReturnUndefined,
      [QuerySelector ''.graphiql-explorer-root #query-Next'', ScrollIntoView ''query-Next'']) \<and>
   relevantMousePos example_editor \<lparr>line = 0, ch = 50\<rparr> = \<lparr>pos_start = 50, pos_end = 55\<rparr> \<and>
   handleInspectOperation example_parse example_querySelector two_queries_text
       example_editor \<lparr>line = 0, ch = 50\<rparr> =
     (Inr ReturnNull, [ConsoleError unable_to_find])"
proof -
  have h: "example_parse two_queries_text = Inr two_queries"
    by (simp add: example_parse_def)
  have p25: "relevantMousePos example_editor \<lparr>line = 0, ch = 25\<rparr> = \<lparr>pos_start = 25, pos_end = 30\<rparr>"
    and p50: "relevantMousePos example_editor \<lparr>line = 0, ch = 50\<rparr> = \<lparr>pos_start = 50, pos_end = 55\<rparr>"
    by (simp_all add: relevantMousePos_def example_editor_def)
  note t = resolver_selects_first_containing
    [of example_parse two_queries_text two_queries example_querySelector example_editor]
  from t [of "\<lparr>line = 0, ch = 25\<rparr>"] t [of "\<lparr>line = 0, ch = 50\<rparr>"] h p25 p50
  show ?thesis
    by (simp add: two_queries_def first_query_def next_query_def selector_def
        example_querySelector_def)
qed

text \<open>
  C9. For the definition that \<^verbatim>\<open>find\<close> returned, the handler asks the page for the
  element named by a kind and a name: the operation type and the name of an operation,
  \<^verbatim>\<open>fragment\<close> and the name of a fragment, where a missing name reads \<^verbatim>\<open>unknown\<close>.
\<close>

theorem identifier_of_found_definition:
  assumes "parse state_query = Inr doc"
    and "array_find (contains_position (relevantMousePos cm mousePos)) (definitions doc)
           = (Some d, logs)"
  shows "handleInspectOperation parse querySelector state_query cm mousePos =
     (let ident =
        (case d of
           OperationDefinition ty nm l \<Rightarrow>
             (operation_type_string ty, case nm of Some v \<Rightarrow> v | None \<Rightarrow> ''unknown'')
         | FragmentDefinition nm l \<Rightarrow>
             (''fragment'', case nm of Some v \<Rightarrow> v | None \<Rightarrow> ''unknown'')
         | OtherDefinition k l \<Rightarrow> (''unknown'', ''unknown''));
          sel = ''.graphiql-explorer-root #'' @ fst ident @ ''-'' @ snd ident
      in (Inr ReturnUndefined,
          logs @ [QuerySelector sel] @
          (case querySelector sel of None \<Rightarrow> [] | Some el \<Rightarrow> [ScrollIntoView el])))"
  unfolding handleInspectOperation_parsed [of parse state_query doc, OF assms(1)] assms(2)
  by (cases d) (simp_all add: Let_def selector_def)

text \<open>A click at column 3, inside the first query.\<close>

theorem identifier_of_found_definition_witness:
  "example_parse two_queries_text = Inr two_queries \<and>
   array_find (contains_position (relevantMousePos example_editor \<lparr>line = 0, ch = 3\<rparr>))
     (definitions two_queries) = (Some first_query, ([] :: string ui_effect list)) \<and>
   handleInspectOperation example_parse example_querySelector two_queries_text
       example_editor \<lparr>line = 0, ch = 3\<rparr> =
     (Inr ReturnUndefined, [QuerySelector ''.graphiql-explorer-root #query-First''])"
proof -
  have h1: "example_parse two_queries_text = Inr two_queries"
    by (simp add: example_parse_def)
  have h2: "array_find (contains_position (relevantMousePos example_editor \<lparr>line = 0, ch = 3\<rparr>))
     (definitions two_queries) = (Some first_query, ([] :: string ui_effect list))"
    by (simp add: relevantMousePos_def example_editor_def two_queries_def first_query_def
        contains_position_def)
  from identifier_of_found_definition
    [of example_parse two_queries_text two_queries example_editor "\<lparr>line = 0, ch = 3\<rparr>"
        first_query "[]" example_querySelector] h1 h2
  show ?thesis
    by (simp add: first_query_def example_querySelector_def)
qed

text \<open>
  C10. The handler never logs \<^verbatim>\<open>Couldn't parse query document\<close>: the parser returns
  a document, which is an object and so truthy, or it throws. When the parser throws on
  the text of the editor, the handler throws the same error to its caller, and has
  logged nothing.
\<close>

theorem could_not_parse_unreachable:
  "ConsoleError could_not_parse \<notin>
     set (snd (handleInspectOperation parse (querySelector :: string \<Rightarrow> 'el option)
                 state_query cm mousePos)) \<and>
   (\<forall>e. parse state_query = Inl e \<longrightarrow>
      handleInspectOperation parse querySelector state_query cm mousePos = (Inl e, []))"
proof (cases "parse state_query")
  case (Inl e)
  then show ?thesis by (simp add: handleInspectOperation_throws)
next
  case (Inr doc)
  obtain r and logs :: "'el ui_effect list" where found:
    "array_find (contains_position (relevantMousePos cm mousePos)) (definitions doc) = (r, logs)"
    by (metis surj_pair)
  have "ConsoleError could_not_parse \<notin> set logs"
    using array_find_logs [OF found] by auto
  moreover have "could_not_parse \<noteq> unable_to_find"
    by (simp add: could_not_parse_def unable_to_find_def)
  ultimately show ?thesis
    using Inr found
    by (simp add: handleInspectOperation_parsed [of parse state_query doc] split: option.splits)
qed

text \<open>The empty text of the editor does not parse.\<close>

theorem could_not_parse_unreachable_witness:
  "example_parse [] = Inl (GraphQLSyntaxError ''Syntax Error'') \<and>
   handleInspectOperation example_parse example_querySelector [] example_editor
     \<lparr>line = 0, ch = 0\<rparr> = (Inl (GraphQLSyntaxError ''Syntax Error''), []) \<and>
   ConsoleError could_not_parse \<notin>
     set (snd (handleInspectOperation example_parse example_querySelector []
                 example_editor \<lparr>line = 0, ch = 0\<rparr>))"
  using could_not_parse_unreachable
    [of example_parse example_querySelector "[]" example_editor "\<lparr>line = 0, ch = 0\<rparr>"]
  by (simp add: example_parse_def two_queries_text_def feed_text_def)

end
